theory Spec2Isabelle
  imports Main "HOL-Library.Sublist"
begin

section \<open>The operating system as the script sees it\<close>

text \<open>
  \<^verbatim>\<open>open_all_htmls.py\<close> talks to its surroundings through \<^verbatim>\<open>os.getcwd\<close>,
  \<^verbatim>\<open>os.path.isdir\<close>, \<^verbatim>\<open>os.listdir\<close>, \<^verbatim>\<open>os.path.isfile\<close>, \<^verbatim>\<open>print\<close>,
  \<^verbatim>\<open>webbrowser.open_new_tab\<close> and \<^verbatim>\<open>sys.exit\<close>.

  The answers of the four queries are the fields of \<open>os_env\<close>; nothing relates them to
  each other, so every filesystem is covered. \<^verbatim>\<open>os.getcwd\<close> raises when the working
  directory has been removed and \<^verbatim>\<open>os.listdir\<close> raises when the directory cannot be
  read; \<^verbatim>\<open>os.path.isdir\<close> and \<^verbatim>\<open>os.path.isfile\<close> answer \<^verbatim>\<open>False\<close> instead of raising.

  Strings are byte strings (\<open>char list\<close>); paths follow \<^verbatim>\<open>posixpath\<close>.
\<close>

datatype py_error =
    PermissionError
  | FileNotFoundError
  | NotADirectoryError
  | OtherOSError
  | UnicodeEncodeError

record os_env =
  getcwd :: "py_error + string"
  isdir :: "string \<Rightarrow> bool"
  listdir :: "string \<Rightarrow> py_error + string list"
  isfile :: "string \<Rightarrow> bool"

text \<open>
  \<^verbatim>\<open>sys.stdout\<close>, as \<^verbatim>\<open>print\<close> meets it: for each text either it is written (\<open>None\<close>)
  or the write raises. A stdout with a strict encoding raises \<^verbatim>\<open>UnicodeEncodeError\<close> on
  a text it cannot encode, and then nothing of that text is written. The stdout is part
  of how the script is started, like its command line, not of the filesystem.
\<close>

type_synonym console = "string \<Rightarrow> py_error option"

text \<open>
  Every call that reaches outside the process is logged, in program order, with the
  answer it got. \<open>WriteFile\<close> stands for any call that creates, changes or removes the
  file at a path; the log of a program that makes such a call holds it.
\<close>

datatype event =
    IsDir string bool
  | ListDir string "py_error + string list"
  | IsFile string bool
  | Print string
  | OpenNewTab string
  | WriteFile string

text \<open>
  A run is the log together with the way the process, or a part of the script, ended:
  it ran to its end, it called \<^verbatim>\<open>sys.exit\<close>, or it raised an exception nobody catches.
\<close>

datatype outcome = Returned | Exit int | Raised py_error

type_synonym run = "event list \<times> outcome"

text \<open>
  The exit status of the interpreter: 0 when the script runs to its end, the argument of
  \<^verbatim>\<open>sys.exit\<close>, and 1 for an exception nobody catches.
\<close>

fun exit_status :: "outcome \<Rightarrow> int" where
  "exit_status Returned = 0"
| "exit_status (Exit n) = n"
| "exit_status (Raised e) = 1"

text \<open>
  Statements in sequence: the second runs only when the first ran to its end. A single
  call that cannot fail, \<^verbatim>\<open>print\<close>, \<^verbatim>\<open>sys.exit\<close> and an exception that propagates.
\<close>

definition then_run :: "run \<Rightarrow> run \<Rightarrow> run" where
  "then_run r k =
     (case snd r of
        Returned \<Rightarrow> (fst r @ fst k, snd k)
      | Exit n \<Rightarrow> r
      | Raised e \<Rightarrow> r)"

definition call :: "event \<Rightarrow> run" where
  "call ev = ([ev], Returned)"

definition py_print :: "console \<Rightarrow> string \<Rightarrow> run" where
  "py_print out s = (case out s of None \<Rightarrow> ([Print s], Returned) | Some e \<Rightarrow> ([], Raised e))"

definition sys_exit :: "int \<Rightarrow> run" where
  "sys_exit n = ([], Exit n)"

definition raise :: "py_error \<Rightarrow> run" where
  "raise e = ([], Raised e)"

section \<open>String methods of Python\<close>

text \<open>
  \<^verbatim>\<open>str.lower\<close> on the ASCII letters. Outside ASCII Python lowers by the Unicode
  tables; no code point outside ASCII lowers to one of \<^verbatim>\<open>.\<close>, \<^verbatim>\<open>h\<close>, \<^verbatim>\<open>t\<close>, \<^verbatim>\<open>m\<close>,
  \<^verbatim>\<open>l\<close>, so the test \<^verbatim>\<open>f.lower().endswith('.html')\<close> cannot tell the difference.
\<close>

definition lower_char :: "char \<Rightarrow> char" where
  "lower_char c =
     (let n = (of_char c :: nat)
      in if 65 \<le> n \<and> n \<le> 90 then char_of (n + 32) else c)"

definition lower :: "string \<Rightarrow> string" where
  "lower s = map lower_char s"

text \<open>\<^verbatim>\<open>s.startswith(p)\<close> and \<^verbatim>\<open>s.endswith(p)\<close> compare a slice of \<open>s\<close> with \<open>p\<close>.\<close>

definition startswith :: "string \<Rightarrow> string \<Rightarrow> bool" where
  "startswith s p = (length p \<le> length s \<and> take (length p) s = p)"

definition endswith :: "string \<Rightarrow> string \<Rightarrow> bool" where
  "endswith s p = (length p \<le> length s \<and> drop (length s - length p) s = p)"

text \<open>\<^verbatim>\<open>s.split('/')\<close>: the pieces between the slashes, empty pieces kept.\<close>

fun split_slash :: "string \<Rightarrow> string list" where
  "split_slash [] = [[]]"
| "split_slash (c # cs) =
     (if c = CHR ''/'' then [] # split_slash cs
      else (case split_slash cs of
              [] \<Rightarrow> [[c]]
            | w # ws \<Rightarrow> (c # w) # ws))"

text \<open>\<^verbatim>\<open>'/'.join(comps)\<close>.\<close>

fun join_slash :: "string list \<Rightarrow> string" where
  "join_slash [] = []"
| "join_slash [w] = w"
| "join_slash (w # ws) = w @ ''/'' @ join_slash ws"

text \<open>\<^verbatim>\<open>str(n)\<close> for the \<^verbatim>\<open>len(html_files)\<close> of the messages.\<close>

definition digit_char :: "nat \<Rightarrow> char" where
  "digit_char d = char_of (48 + d)"

fun str_nat :: "nat \<Rightarrow> string" where
  "str_nat n = (if n < 10 then [digit_char n] else str_nat (n div 10) @ [digit_char (n mod 10)])"

declare str_nat.simps [simp del]

section \<open>\<^verbatim>\<open>os.path\<close> on POSIX\<close>

text \<open>
  \<^verbatim>\<open>os.path.join(a, b)\<close>: an absolute \<open>b\<close> replaces \<open>a\<close>; otherwise \<open>b\<close> is appended,
  after a slash unless \<open>a\<close> is empty or already ends with one.
\<close>

definition path_join :: "string \<Rightarrow> string \<Rightarrow> string" where
  "path_join a b =
     (if startswith b ''/'' then b
      else if a = [] \<or> endswith a ''/'' then a @ b
      else a @ ''/'' @ b)"

text \<open>
  \<^verbatim>\<open>os.path.normpath\<close>: one or two leading slashes are kept (three or more become one),
  empty and \<^verbatim>\<open>.\<close> components are dropped, and \<^verbatim>\<open>..\<close> removes the component before
  it, lexically. \<open>norm_step\<close> is the body of its loop over the components, \<open>new_comps\<close>
  growing at its end.
\<close>

definition initial_slashes :: "string \<Rightarrow> nat" where
  "initial_slashes path =
     (if \<not> startswith path ''/'' then 0
      else if startswith path ''//'' \<and> \<not> startswith path ''///'' then 2
      else 1)"

definition norm_step :: "nat \<Rightarrow> string list \<Rightarrow> string \<Rightarrow> string list" where
  "norm_step slashes new_comps comp' =
     (if comp' = [] \<or> comp' = ''.'' then new_comps
      else if comp' \<noteq> ''..'' \<or> (slashes = 0 \<and> new_comps = [])
                \<or> (new_comps \<noteq> [] \<and> last new_comps = ''..'')
        then new_comps @ [comp']
      else if new_comps \<noteq> [] then butlast new_comps
      else new_comps)"

definition normpath :: "string \<Rightarrow> string" where
  "normpath path =
     (if path = [] then ''.''
      else let slashes = initial_slashes path;
               comps = foldl (norm_step slashes) [] (split_slash path);
               joined = replicate slashes CHR ''/'' @ join_slash comps
           in if joined = [] then ''.'' else joined)"

text \<open>
  \<^verbatim>\<open>os.path.abspath\<close>: a relative path is taken from the working directory, and only
  then is \<^verbatim>\<open>os.getcwd\<close> called.
\<close>

definition abspath :: "os_env \<Rightarrow> string \<Rightarrow> py_error + string" where
  "abspath env path =
     (if startswith path ''/'' then Inr (normpath path)
      else (case getcwd env of
              Inl e \<Rightarrow> Inl e
            | Inr cwd \<Rightarrow> Inr (normpath (path_join cwd path))))"


section \<open>The script\<close>

text \<open>Step 1 of \<^verbatim>\<open>open_all_htmls\<close>: the directory to scan (the variable \<^verbatim>\<open>cwd\<close>).\<close>

definition resolve_dir :: "os_env \<Rightarrow> string option \<Rightarrow> py_error + string" where
  "resolve_dir env target_dir =
     (case target_dir of None \<Rightarrow> getcwd env | Some t \<Rightarrow> abspath env t)"

text \<open>
  Step 4, the list comprehension. \<^verbatim>\<open>and\<close> is short-circuit: \<^verbatim>\<open>os.path.isfile\<close> is asked
  only about the names that end with \<^verbatim>\<open>.html\<close>. The result is the queries made and
  the names kept, both in listing order.
\<close>

fun html_filter :: "os_env \<Rightarrow> string \<Rightarrow> string list \<Rightarrow> event list \<times> string list" where
  "html_filter env cwd [] = ([], [])"
| "html_filter env cwd (f # files) =
     (let (evs, kept) = html_filter env cwd files
      in if endswith (lower f) ''.html''
         then (let p = path_join cwd f; b = isfile env p
               in (IsFile p b # evs, if b then f # kept else kept))
         else (evs, kept))"

text \<open>The lines the script prints.\<close>

definition msg_not_found :: "string \<Rightarrow> string" where
  "msg_not_found cwd = ''Error: Directory '' @ [CHR 0x27] @ cwd @ [CHR 0x27]
                         @ '' not found or is not a directory.''"

definition msg_banner :: string where
  "msg_banner = ''--- HTML File Opener ---''"

definition msg_searching :: "string \<Rightarrow> string" where
  "msg_searching cwd = ''Searching for HTML files in: '' @ cwd"

definition msg_denied :: "string \<Rightarrow> string" where
  "msg_denied cwd = ''Error: Permission denied to access directory: '' @ cwd"

definition msg_none :: string where
  "msg_none = ''No HTML files found in the current directory.''"

definition msg_found :: "nat \<Rightarrow> string" where
  "msg_found n = [CHR 0x0A] @ ''Found '' @ str_nat n @ '' HTML file(s). Opening them now...''"

definition msg_opening :: "string \<Rightarrow> string" where
  "msg_opening filename = ''  -> Opening: '' @ filename"

definition msg_finished :: string where
  "msg_finished = [CHR 0x0A] @ ''--- Finished ---''"

definition msg_all :: "nat \<Rightarrow> string" where
  "msg_all n = ''All '' @ str_nat n @ '' files have been sent to the default browser.''"

text \<open>
  Step 5, the loop over \<^verbatim>\<open>html_files\<close>. In each round the URI is built first, then the
  name is printed, then the URI is handed to the browser.
  \<^verbatim>\<open>webbrowser.open_new_tab\<close> reports a failure by its result, which the script drops.
\<close>

fun open_loop :: "console \<Rightarrow> os_env \<Rightarrow> string \<Rightarrow> string list \<Rightarrow> run" where
  "open_loop out env cwd [] = ([], Returned)"
| "open_loop out env cwd (filename # rest) =
     (let file_path = path_join cwd filename
      in case abspath env file_path of
           Inl e \<Rightarrow> raise e
         | Inr p \<Rightarrow>
             (let absolute_uri = ''file://'' @ p
              in then_run (py_print out (msg_opening filename))
                   (then_run (call (OpenNewTab absolute_uri))
                      (open_loop out env cwd rest))))"

text \<open>
  \<^verbatim>\<open>open_all_htmls(target_dir)\<close>, lines 21 to 85. Only the \<^verbatim>\<open>PermissionError\<close> of
  \<^verbatim>\<open>os.listdir\<close> is caught; every other exception ends the run.
\<close>

definition open_all_htmls :: "console \<Rightarrow> os_env \<Rightarrow> string option \<Rightarrow> run" where
  "open_all_htmls out env target_dir =
     (case resolve_dir env target_dir of
        Inl e \<Rightarrow> raise e
      | Inr cwd \<Rightarrow>
          if \<not> isdir env cwd
          then then_run (call (IsDir cwd False))
                 (then_run (py_print out (msg_not_found cwd)) (sys_exit 1))
          else
            then_run (call (IsDir cwd True))
           (then_run (py_print out msg_banner)
           (then_run (py_print out (msg_searching cwd))
             (let listing = listdir env cwd
              in then_run (call (ListDir cwd listing))
                   (case listing of
                      Inl e \<Rightarrow>
                        if e = PermissionError
                        then then_run (py_print out (msg_denied cwd)) (sys_exit 1)
                        else raise e
                    | Inr files \<Rightarrow>
                        (let (queries, html_files) = html_filter env cwd files
                         in then_run (queries, Returned)
                              (if html_files = []
                               then py_print out msg_none
                               else
                                 then_run (py_print out (msg_found (length html_files)))
                                (then_run (open_loop out env cwd html_files)
                                (then_run (py_print out msg_finished)
                                   (py_print out (msg_all (length html_files))))))))))))"

text \<open>
  The \<^verbatim>\<open>__main__\<close> block; \<open>argv\<close> is \<^verbatim>\<open>sys.argv\<close>, the script's own name first.
\<close>

definition target_directory :: "string list \<Rightarrow> string option" where
  "target_directory argv = (if length argv > 1 then Some (argv ! 1) else None)"

definition main :: "console \<Rightarrow> os_env \<Rightarrow> string list \<Rightarrow> run" where
  "main out env argv = open_all_htmls out env (target_directory argv)"

text \<open>
  What a run shows: the lines printed, the URIs handed to the browser, and the answers
  the queries got.
\<close>

fun printed :: "event list \<Rightarrow> string list" where
  "printed [] = []"
| "printed (Print s # evs) = s # printed evs"
| "printed (_ # evs) = printed evs"

fun launched :: "event list \<Rightarrow> string list" where
  "launched [] = []"
| "launched (OpenNewTab u # evs) = u # launched evs"
| "launched (_ # evs) = launched evs"

fun isdir_answers :: "event list \<Rightarrow> (string \<times> bool) list" where
  "isdir_answers [] = []"
| "isdir_answers (IsDir p b # evs) = (p, b) # isdir_answers evs"
| "isdir_answers (_ # evs) = isdir_answers evs"

fun listings :: "event list \<Rightarrow> (string \<times> (py_error + string list)) list" where
  "listings [] = []"
| "listings (ListDir d r # evs) = (d, r) # listings evs"
| "listings (_ # evs) = listings evs"

fun isfile_answers :: "event list \<Rightarrow> (string \<times> bool) list" where
  "isfile_answers [] = []"
| "isfile_answers (IsFile p b # evs) = (p, b) # isfile_answers evs"
| "isfile_answers (_ # evs) = isfile_answers evs"

text \<open>
  The part of the filesystem an event may touch, for a run that scans \<open>d\<close> and was
  given the listing \<open>files\<close>: the queries may ask about \<open>d\<close> itself and about the
  entries of \<open>d\<close>, nothing else, and nothing may be written. Printing and handing a URI
  to the browser touch no file.
\<close>

fun reads_within :: "string \<Rightarrow> string list \<Rightarrow> event \<Rightarrow> bool" where
  "reads_within d files (IsDir p b) = (p = d)"
| "reads_within d files (ListDir p r) = (p = d)"
| "reads_within d files (IsFile p b) = (p \<in> set (map (path_join d) files))"
| "reads_within d files (Print s) = True"
| "reads_within d files (OpenNewTab u) = True"
| "reads_within d files (WriteFile p) = False"

text \<open>The events that change the filesystem.\<close>

fun writes :: "event \<Rightarrow> bool" where
  "writes (WriteFile p) = True"
| "writes (IsDir p b) = False"
| "writes (ListDir p r) = False"
| "writes (IsFile p b) = False"
| "writes (Print s) = False"
| "writes (OpenNewTab u) = False"

text \<open>The listing a run gets to see, empty when \<^verbatim>\<open>os.listdir\<close> raises.\<close>

definition listed :: "os_env \<Rightarrow> string \<Rightarrow> string list" where
  "listed env d = (case listdir env d of Inl e \<Rightarrow> [] | Inr files \<Rightarrow> files)"

section \<open>Machines to run the script on\<close>

text \<open>
  Two ways to start the script: on a stdout that takes every text, and on a stdout with
  the strict ASCII encoding, which raises on a text holding a byte above 127.
\<close>

definition any_stdout :: console where
  "any_stdout s = None"

definition ascii_stdout :: console where
  "ascii_stdout s =
     (if list_all (\<lambda>c. (of_char c :: nat) < 128) s then None else Some UnicodeEncodeError)"

text \<open>The letter e with an acute accent, in UTF-8.\<close>

definition e_acute :: string where
  "e_acute = [CHR 0xC3, CHR 0xA9]"

text \<open>
  One concrete machine for the examples. The working directory is \<^verbatim>\<open>/home/u\<close>, which
  holds two files and a directory called \<^verbatim>\<open>old.html\<close>; \<^verbatim>\<open>/srv/www\<close> holds
  \<^verbatim>\<open>a.HTML\<close>, \<^verbatim>\<open>b.html\<close>, \<^verbatim>\<open>c.txt\<close> and the directory \<^verbatim>\<open>d\<close>; \<^verbatim>\<open>/srv/empty\<close>
  is empty and \<^verbatim>\<open>/srv/locked\<close> may not be read. Three directories have an accent in
  a name: \<^verbatim>\<open>/srv/caf\<close>\<open>e_acute\<close> is empty, \<^verbatim>\<open>/srv/priv\<close>\<open>e_acute\<close> may not be read,
  and \<^verbatim>\<open>/srv/docs\<close> holds three HTML files, the second with an accent. Nothing else
  exists: a path through a missing component, such as \<^verbatim>\<open>/home/u/nope/..\<close>, is no
  directory and no file.
\<close>

definition www_env :: os_env where
  "www_env =
     \<lparr> getcwd = Inr ''/home/u'',
       isdir = (\<lambda>p. p \<in> set [''/'', ''/home'', ''/home/u'', ''/home/u/old.html'', ''/srv'',
                                ''/srv/www'', ''/srv/www/d'', ''/srv/empty'', ''/srv/locked'',
                                ''/srv/caf'' @ e_acute, ''/srv/priv'' @ e_acute, ''/srv/docs'']),
       listdir = (\<lambda>p. if p = ''/srv/www'' then Inr [''a.HTML'', ''b.html'', ''c.txt'', ''d'']
                      else if p = ''/home/u'' then Inr [''notes.txt'', ''old.html'', ''index.html'']
                      else if p = ''/srv/empty'' then Inr []
                      else if p = ''/srv/locked'' then Inl PermissionError
                      else if p = ''/srv/caf'' @ e_acute then Inr []
                      else if p = ''/srv/priv'' @ e_acute then Inl PermissionError
                      else if p = ''/srv/docs''
                        then Inr [''index.html'', ''r'' @ e_acute @ ''sum'' @ e_acute @ ''.html'',
                                  ''zeta.html'']
                      else Inl FileNotFoundError),
       isfile = (\<lambda>p. p \<in> set [''/srv/www/a.HTML'', ''/srv/www/b.html'', ''/srv/www/c.txt'',
                                 ''/home/u/notes.txt'', ''/home/u/index.html'',
                                 ''/srv/docs/index.html'',
                                 ''/srv/docs/r'' @ e_acute @ ''sum'' @ e_acute @ ''.html'',
                                 ''/srv/docs/zeta.html'']) \<rparr>"


section \<open>Reading the log\<close>

lemma printed_append: "printed (xs @ ys) = printed xs @ printed ys"
  by (induction xs rule: printed.induct) simp_all

lemma launched_append: "launched (xs @ ys) = launched xs @ launched ys"
  by (induction xs rule: launched.induct) simp_all

lemma listings_append: "listings (xs @ ys) = listings xs @ listings ys"
  by (induction xs rule: listings.induct) simp_all

lemma isfile_answers_append:
  "isfile_answers (xs @ ys) = isfile_answers xs @ isfile_answers ys"
  by (induction xs rule: isfile_answers.induct) simp_all

lemma isdir_answers_append:
  "isdir_answers (xs @ ys) = isdir_answers xs @ isdir_answers ys"
  by (induction xs rule: isdir_answers.induct) simp_all

lemmas log_append =
  printed_append launched_append listings_append isfile_answers_append isdir_answers_append

section \<open>Statements in sequence\<close>

lemma then_run_call: "then_run (call ev) k = (ev # fst k, snd k)"
  by (simp add: then_run_def call_def)

lemma then_run_events: "then_run (evs, Returned) k = (evs @ fst k, snd k)"
  by (simp add: then_run_def)

lemma then_run_print:
  "then_run (py_print out s) k =
     (case out s of None \<Rightarrow> (Print s # fst k, snd k) | Some e \<Rightarrow> ([], Raised e))"
  by (simp add: then_run_def py_print_def split: option.splits)


lemma then_run_print_fails: "out s = Some e \<Longrightarrow> then_run (py_print out s) k = ([], Raised e)"
  by (simp add: then_run_print)

lemma fst_then_run:
  "fst (then_run r k) = fst r @ (case snd r of Returned \<Rightarrow> fst k | Exit n \<Rightarrow> [] | Raised e \<Rightarrow> [])"
  by (simp add: then_run_def split: outcome.splits)

lemma snd_then_run:
  "snd (then_run r k) = (case snd r of Returned \<Rightarrow> snd k | Exit n \<Rightarrow> Exit n | Raised e \<Rightarrow> Raised e)"
  by (simp add: then_run_def split: outcome.splits)

lemma py_print_ok: "out s = None \<Longrightarrow> py_print out s = ([Print s], Returned)"
  by (simp add: py_print_def)

lemma py_print_fails: "out s = Some e \<Longrightarrow> py_print out s = ([], Raised e)"
  by (simp add: py_print_def)

section \<open>The filter as a list function\<close>

text \<open>Python's \<^verbatim>\<open>endswith\<close> is the suffix relation on lists.\<close>

lemma endswith_suffix: "endswith s p = suffix p s"
proof
  assume "endswith s p"
  then have "s = take (length s - length p) s @ p"
    by (metis append_take_drop_id endswith_def)
  then show "suffix p s"
    by (metis suffixI)
next
  assume "suffix p s"
  then obtain zs where "s = zs @ p"
    by (auto simp: suffix_def)
  then show "endswith s p"
    by (simp add: endswith_def)
qed

lemma html_filter_kept:
  "snd (html_filter env cwd files) =
     filter (\<lambda>f. endswith (lower f) ''.html'' \<and> isfile env (path_join cwd f)) files"
  by (induction files) (simp_all add: Let_def case_prod_unfold)

lemma html_filter_matched:
  "snd (html_filter env cwd files) =
     filter (\<lambda>f. isfile env (path_join cwd f) \<and> suffix ''.html'' (lower f)) files"
  by (simp add: html_filter_kept endswith_suffix conj_commute)

lemma html_filter_queries:
  "fst (html_filter env cwd files) =
     map (\<lambda>f. IsFile (path_join cwd f) (isfile env (path_join cwd f)))
       (filter (\<lambda>f. endswith (lower f) ''.html'') files)"
  by (induction files) (simp_all add: Let_def case_prod_unfold)

lemma queries_printed: "printed (fst (html_filter env cwd files)) = []"
  by (induction files) (simp_all add: Let_def case_prod_unfold)

lemma queries_launched: "launched (fst (html_filter env cwd files)) = []"
  by (induction files) (simp_all add: Let_def case_prod_unfold)

lemma queries_listings: "listings (fst (html_filter env cwd files)) = []"
  by (induction files) (simp_all add: Let_def case_prod_unfold)



lemma queries_no_writes: "list_all (\<lambda>e. \<not> writes e) (fst (html_filter env cwd files))"
  by (simp add: html_filter_queries list_all_iff)

lemma queries_read_within:
  "list_all (reads_within d files) (fst (html_filter env d files))"
  by (simp add: html_filter_queries list_all_iff)


lemma target_directory_take: "target_directory (take 2 argv) = target_directory argv"
  by (simp add: target_directory_def)

section \<open>Absolute, normalised paths\<close>





































section \<open>The loop and the ways a run can go\<close>

lemma open_loop_listings: "listings (fst (open_loop out env d names)) = []"
  by (induction names)
     (simp_all add: Let_def raise_def fst_then_run call_def py_print_def
        split: sum.splits option.splits)



lemma open_loop_no_writes: "list_all (\<lambda>e. \<not> writes e) (fst (open_loop out env d names))"
  by (induction names)
     (simp_all add: Let_def raise_def fst_then_run call_def py_print_def
        split: sum.splits option.splits)

lemma open_loop_reads_within: "list_all (reads_within d files) (fst (open_loop out env d names))"
  by (induction names)
     (simp_all add: Let_def raise_def fst_then_run call_def py_print_def
        split: sum.splits option.splits)

lemma open_loop_not_exit: "snd (open_loop out env d names) \<noteq> Exit n"
  by (induction names)
     (simp_all add: Let_def raise_def snd_then_run call_def py_print_def
        split: sum.splits option.splits)





lemma run_no_writes: "list_all (\<lambda>e. \<not> writes e) (fst (open_all_htmls out env t))"
  by (simp add: open_all_htmls_def fst_then_run snd_then_run call_def py_print_def
        raise_def sys_exit_def Let_def case_prod_unfold queries_no_writes open_loop_no_writes
        split: sum.splits option.splits outcome.splits)

lemma run_unresolved:
  "resolve_dir env t = Inl e \<Longrightarrow> open_all_htmls out env t = ([], Raised e)"
  by (simp add: open_all_htmls_def raise_def)

lemma run_not_dir:
  assumes "resolve_dir env t = Inr d" and "\<not> isdir env d"
  shows "open_all_htmls out env t =
           (case out (msg_not_found d) of
              None \<Rightarrow> ([IsDir d False, Print (msg_not_found d)], Exit 1)
            | Some e \<Rightarrow> ([IsDir d False], Raised e))"
  using assms
  by (simp add: open_all_htmls_def then_run_call then_run_print sys_exit_def
        split: option.splits)

text \<open>The run up to the first print that fails, for a path that is a directory.\<close>

lemma run_banner_fails:
  assumes "resolve_dir env t = Inr d" and "isdir env d" and "out msg_banner = Some e"
  shows "open_all_htmls out env t = ([IsDir d True], Raised e)"
  using assms
  by (simp add: open_all_htmls_def then_run_call then_run_print)

lemma run_searching_fails:
  assumes "resolve_dir env t = Inr d" and "isdir env d" and "out msg_banner = None"
    and "out (msg_searching d) = Some e"
  shows "open_all_htmls out env t = ([IsDir d True, Print msg_banner], Raised e)"
  using assms
  by (simp add: open_all_htmls_def then_run_call then_run_print)


lemma run_nothing_found:
  assumes "resolve_dir env t = Inr d" and "isdir env d" and "out msg_banner = None"
    and "out (msg_searching d) = None" and "listdir env d = Inr files"
    and "snd (html_filter env d files) = []"
  shows "open_all_htmls out env t =
           (case out msg_none of
              None \<Rightarrow> ([IsDir d True, Print msg_banner, Print (msg_searching d),
                         ListDir d (Inr files)] @ fst (html_filter env d files)
                          @ [Print msg_none], Returned)
            | Some e \<Rightarrow> ([IsDir d True, Print msg_banner, Print (msg_searching d),
                           ListDir d (Inr files)] @ fst (html_filter env d files), Raised e))"
  using assms
  by (simp add: open_all_htmls_def then_run_call then_run_print then_run_events
        py_print_def case_prod_unfold split: option.splits)


lemmas run_defs =
  open_all_htmls_def then_run_def call_def py_print_def sys_exit_def raise_def Let_def
  case_prod_unfold

lemma run_reads_within:
  assumes "resolve_dir env t = Inr d"
  shows "list_all (reads_within d (listed env d)) (fst (open_all_htmls out env t))"
  using assms
  by (simp add: run_defs listed_def queries_read_within open_loop_reads_within
        split: sum.splits option.splits outcome.splits)


lemma run_listings:
  assumes "resolve_dir env t = Inr d"
  shows "listings (fst (open_all_htmls out env t)) =
           (if isdir env d \<and> out msg_banner = None \<and> out (msg_searching d) = None
            then [(d, listdir env d)] else [])"
  using assms
  by (simp add: run_defs log_append queries_listings open_loop_listings
        split: sum.splits option.splits outcome.splits)



section \<open>The claims\<close>

text \<open>
  C1. From any listing, the filter keeps exactly the entries that are regular files and
  whose lowercased name ends with \<^verbatim>\<open>.html\<close>, in listing order. For the directory
  holding \<^verbatim>\<open>a.HTML\<close>, \<^verbatim>\<open>b.html\<close>, \<^verbatim>\<open>c.txt\<close> and the subdirectory \<^verbatim>\<open>d\<close> that is
  \<^verbatim>\<open>a.HTML\<close> and \<^verbatim>\<open>b.html\<close>.
\<close>

theorem filter_keeps_regular_html_files:
  "snd (html_filter env cwd files) =
     filter (\<lambda>f. isfile env (path_join cwd f) \<and> suffix ''.html'' (lower f)) files
   \<and> set (snd (html_filter env cwd files)) =
       {f \<in> set files. isfile env (path_join cwd f) \<and> suffix ''.html'' (lower f)}"
proof -
  have "snd (html_filter env cwd files) =
          filter (\<lambda>f. isfile env (path_join cwd f) \<and> suffix ''.html'' (lower f)) files"
    by (rule html_filter_matched)
  then show ?thesis by simp
qed

theorem filter_keeps_regular_html_files_witness:
  "set (snd (html_filter www_env ''/srv/www'' [''a.HTML'', ''b.html'', ''c.txt'', ''d'']))
     = {''a.HTML'', ''b.html''}
   \<and> isdir www_env ''/srv/www/d''
   \<and> snd (html_filter www_env ''/home/u'' [''notes.txt'', ''old.html'', ''index.html''])
       = [''index.html'']
   \<and> isdir www_env ''/home/u/old.html''"
proof -
  have "filter (\<lambda>f. isfile www_env (path_join ''/srv/www'' f) \<and> suffix ''.html'' (lower f))
          [''a.HTML'', ''b.html'', ''c.txt'', ''d''] = [''a.HTML'', ''b.html'']"
    by code_simp
  with filter_keeps_regular_html_files
         [of www_env "''/srv/www''" "[''a.HTML'', ''b.html'', ''c.txt'', ''d'']"]
  have www: "set (snd (html_filter www_env ''/srv/www''
                        [''a.HTML'', ''b.html'', ''c.txt'', ''d''])) = {''a.HTML'', ''b.html''}"
    by simp
  have "filter (\<lambda>f. isfile www_env (path_join ''/home/u'' f) \<and> suffix ''.html'' (lower f))
          [''notes.txt'', ''old.html'', ''index.html''] = [''index.html'']"
    by code_simp
  with filter_keeps_regular_html_files
         [of www_env "''/home/u''" "[''notes.txt'', ''old.html'', ''index.html'']"]
  have home: "snd (html_filter www_env ''/home/u'' [''notes.txt'', ''old.html'', ''index.html''])
                = [''index.html'']"
    by simp
  have "isdir www_env ''/srv/www/d''" and "isdir www_env ''/home/u/old.html''"
    by code_simp+
  with www home show ?thesis
    by blast
qed







text \<open>
  C4, as stated: every directory with no matching entry gives the "no files found"
  line and exit status 0. The script prints the path of the directory before it lists
  it. \<^verbatim>\<open>/srv/caf\<close>\<open>e_acute\<close> is an empty directory; on the ASCII stdout the print of its
  path raises, so the line is never printed and the exit status is 1.
\<close>

theorem nothing_found_counterexample:
  "isdir www_env (''/srv/caf'' @ e_acute)
   \<and> listdir www_env (''/srv/caf'' @ e_acute) = Inr []
   \<and> printed (fst (main ascii_stdout www_env [''open_all_htmls.py'', ''/srv/caf'' @ e_acute]))
       = [''--- HTML File Opener ---'']
   \<and> exit_status (snd (main ascii_stdout www_env [''open_all_htmls.py'', ''/srv/caf'' @ e_acute]))
       = 1"
  by code_simp

text \<open>
  C4, amended. When the scanned directory can be listed, no entry passes the filter (an
  empty directory included) and stdout takes the three lines of such a run, the run
  prints the "no files found" line, issues no launch request and reaches the end of the
  script: exit status 0.
\<close>

theorem nothing_found_exits_0:
  assumes "resolve_dir env (target_directory argv) = Inr d"
    and "isdir env d"
    and "listdir env d = Inr files"
    and "filter (\<lambda>f. isfile env (path_join d f) \<and> suffix ''.html'' (lower f)) files = []"
    and "out msg_banner = None"
    and "out (msg_searching d) = None"
    and "out msg_none = None"
  shows "Print ''No HTML files found in the current directory.'' \<in> set (fst (main out env argv))
         \<and> launched (fst (main out env argv)) = []
         \<and> snd (main out env argv) = Returned
         \<and> exit_status (snd (main out env argv)) = 0"
  using assms
  by (simp add: main_def html_filter_matched run_nothing_found launched_append
        queries_launched msg_none_def)

theorem nothing_found_exits_0_witness:
  "isdir www_env ''/srv/empty''
   \<and> listdir www_env ''/srv/empty'' = Inr []
   \<and> Print ''No HTML files found in the current directory.''
       \<in> set (fst (main ascii_stdout www_env [''open_all_htmls.py'', ''/srv/empty'']))
   \<and> launched (fst (main ascii_stdout www_env [''open_all_htmls.py'', ''/srv/empty''])) = []
   \<and> exit_status (snd (main ascii_stdout www_env [''open_all_htmls.py'', ''/srv/empty''])) = 0"
proof -
  have d: "resolve_dir www_env (target_directory [''open_all_htmls.py'', ''/srv/empty''])
             = Inr ''/srv/empty''"
    by code_simp
  have dir: "isdir www_env ''/srv/empty''"
    by code_simp
  have ls: "listdir www_env ''/srv/empty'' = Inr []"
    by code_simp
  have m: "filter (\<lambda>f. isfile www_env (path_join ''/srv/empty'' f)
                            \<and> suffix ''.html'' (lower f)) [] = []"
    by simp
  have b: "ascii_stdout msg_banner = None"
    and s: "ascii_stdout (msg_searching ''/srv/empty'') = None"
    and n: "ascii_stdout msg_none = None"
    by code_simp+
  from nothing_found_exits_0 [OF d dir ls m b s n] dir ls show ?thesis
    by simp
qed




text \<open>
  C6. Started with no directory argument, the script scans the current working
  directory: the resolved directory is what \<^verbatim>\<open>os.getcwd()\<close> gives, and when it gives a
  path the first thing the run does is test that path.
\<close>

theorem no_argument_scans_cwd:
  assumes "length argv \<le> 1"
  shows "resolve_dir env (target_directory argv) = getcwd env
         \<and> (\<forall>c. getcwd env = Inr c \<longrightarrow>
               hd (fst (main out env argv)) = IsDir c (isdir env c))"
proof -
  from assms have t: "target_directory argv = None"
    by (simp add: target_directory_def)
  then have d: "resolve_dir env (target_directory argv) = getcwd env"
    by (simp add: resolve_dir_def)
  have "hd (fst (main out env argv)) = IsDir c (isdir env c)" if c: "getcwd env = Inr c" for c
  proof -
    from d c have r: "resolve_dir env (target_directory argv) = Inr c"
      by simp
    show ?thesis
    proof (cases "isdir env c")
      case False
      with r show ?thesis
        by (simp add: main_def run_not_dir split: option.splits)
    next
      case True
      with r show ?thesis
        by (simp add: main_def open_all_htmls_def then_run_call)
    qed
  qed
  with d show ?thesis by simp
qed

theorem no_argument_scans_cwd_witness:
  "length [''open_all_htmls.py''] \<le> 1
   \<and> getcwd www_env = Inr ''/home/u''
   \<and> resolve_dir www_env (target_directory [''open_all_htmls.py'']) = Inr ''/home/u''
   \<and> hd (fst (main any_stdout www_env [''open_all_htmls.py''])) = IsDir ''/home/u'' True"
proof -
  have n: "length [''open_all_htmls.py''] \<le> 1"
    by simp
  have cwd: "getcwd www_env = Inr ''/home/u''"
    by code_simp
  have dir: "isdir www_env ''/home/u''"
    by code_simp
  from no_argument_scans_cwd [OF n, of www_env any_stdout] cwd dir show ?thesis
    by simp
qed

text \<open>
  C7. Whatever the run, no event of its log writes: the filesystem is as the run found
  it, and a later run finds nothing left by this one. Each event is a query about the
  resolved directory \<open>d\<close> itself or about an entry of \<open>d\<close>, a line printed, or a URI
  handed to the browser. \<open>d\<close> is listed at most once and no other directory is listed,
  so the scan does not descend. A run whose path cannot be resolved touches nothing.
\<close>

theorem run_reads_only_the_scanned_directory:
  "list_all (\<lambda>e. \<not> writes e) (fst (main out env argv))
   \<and> (\<forall>d. resolve_dir env (target_directory argv) = Inr d \<longrightarrow>
         list_all (reads_within d (listed env d)) (fst (main out env argv))
         \<and> (listings (fst (main out env argv)) = []
              \<or> listings (fst (main out env argv)) = [(d, listdir env d)]))
   \<and> (\<forall>e. resolve_dir env (target_directory argv) = Inl e \<longrightarrow> fst (main out env argv) = [])"
  by (simp add: main_def run_no_writes run_reads_within run_listings run_unresolved)

theorem run_reads_only_the_scanned_directory_witness:
  "resolve_dir www_env (target_directory [''open_all_htmls.py'', ''.'']) = Inr ''/home/u''
   \<and> list_all (\<lambda>e. \<not> writes e) (fst (main any_stdout www_env [''open_all_htmls.py'', ''.'']))
   \<and> list_all (reads_within ''/home/u'' [''notes.txt'', ''old.html'', ''index.html''])
       (fst (main any_stdout www_env [''open_all_htmls.py'', ''.'']))
   \<and> isdir www_env ''/home/u/old.html''
   \<and> listings (fst (main any_stdout www_env [''open_all_htmls.py'', ''.'']))
       = [(''/home/u'', Inr [''notes.txt'', ''old.html'', ''index.html''])]"
proof -
  have d: "resolve_dir www_env (target_directory [''open_all_htmls.py'', ''.'']) = Inr ''/home/u''"
    by code_simp
  have sub: "isdir www_env ''/home/u/old.html''"
    by code_simp
  have ls: "listdir www_env ''/home/u'' = Inr [''notes.txt'', ''old.html'', ''index.html'']"
    by code_simp
  then have l: "listed www_env ''/home/u'' = [''notes.txt'', ''old.html'', ''index.html'']"
    by (simp add: listed_def)
  have seen: "listings (fst (main any_stdout www_env [''open_all_htmls.py'', ''.''])) \<noteq> []"
    by code_simp
  from run_reads_only_the_scanned_directory
         [of any_stdout www_env "[''open_all_htmls.py'', ''.'']"] d
  have "list_all (\<lambda>e. \<not> writes e) (fst (main any_stdout www_env [''open_all_htmls.py'', ''.'']))"
    and "list_all (reads_within ''/home/u'' (listed www_env ''/home/u''))
           (fst (main any_stdout www_env [''open_all_htmls.py'', ''.'']))"
    and "listings (fst (main any_stdout www_env [''open_all_htmls.py'', ''.''])) = []
         \<or> listings (fst (main any_stdout www_env [''open_all_htmls.py'', ''.'']))
             = [(''/home/u'', listdir www_env ''/home/u'')]"
    by blast+
  with d sub ls l seen show ?thesis
    by simp
qed

text \<open>
  C8. Arguments after the first positional one are ignored: the run on \<^verbatim>\<open>sys.argv\<close> is
  the run on its first two elements (the script's name and the first argument).
\<close>

theorem extra_arguments_ignored: "main out env argv = main out env (take 2 argv)"
  by (simp add: main_def target_directory_take)

theorem extra_arguments_ignored_witness:
  "main any_stdout www_env [''open_all_htmls.py'', ''/srv/www'', ''/srv/empty'', ''--quiet'']
     = main any_stdout www_env [''open_all_htmls.py'', ''/srv/www'']"
  using extra_arguments_ignored
          [of any_stdout www_env "[''open_all_htmls.py'', ''/srv/www'', ''/srv/empty'', ''--quiet'']"]
  by simp

text \<open>
  C9. When no HTML file is found, the message is the literal
  \<^verbatim>\<open>No HTML files found in the current directory.\<close>, whichever directory was scanned:
  what such a run prints is a beginning of the two opening lines and that literal, and
  all three when stdout takes them. The second line names the scanned directory, the
  message does not.
\<close>

theorem no_files_message_is_fixed:
  assumes "resolve_dir env (target_directory argv) = Inr d"
    and "isdir env d"
    and "listdir env d = Inr files"
    and "filter (\<lambda>f. isfile env (path_join d f) \<and> suffix ''.html'' (lower f)) files = []"
  shows "prefix (printed (fst (main out env argv)))
           [''--- HTML File Opener ---'',
            ''Searching for HTML files in: '' @ d,
            ''No HTML files found in the current directory.'']
         \<and> (out msg_banner = None \<and> out (msg_searching d) = None \<and> out msg_none = None \<longrightarrow>
              printed (fst (main out env argv)) =
                [''--- HTML File Opener ---'',
                 ''Searching for HTML files in: '' @ d,
                 ''No HTML files found in the current directory.''])"
proof -
  from assms(4) have kept: "snd (html_filter env d files) = []"
    by (simp add: html_filter_matched)
  show ?thesis
  proof (cases "out msg_banner")
    case (Some e)
    with assms(1,2) show ?thesis
      by (simp add: main_def run_banner_fails)
  next
    case None
    show ?thesis
    proof (cases "out (msg_searching d)")
      case (Some e)
      with None assms(1,2) show ?thesis
        by (simp add: main_def run_searching_fails msg_banner_def)
    next
      case s: None
      with None assms(1-3) kept show ?thesis
        by (simp add: main_def run_nothing_found printed_append queries_printed
              msg_banner_def msg_searching_def msg_none_def split: option.splits)
    qed
  qed
qed

theorem no_files_message_is_fixed_witness:
  "getcwd www_env \<noteq> Inr ''/srv/empty''
   \<and> isdir www_env ''/srv/empty''
   \<and> listdir www_env ''/srv/empty'' = Inr []
   \<and> printed (fst (main ascii_stdout www_env [''open_all_htmls.py'', ''/srv/empty''])) =
       [''--- HTML File Opener ---'',
        ''Searching for HTML files in: /srv/empty'',
        ''No HTML files found in the current directory.'']"
proof -
  have d: "resolve_dir www_env (target_directory [''open_all_htmls.py'', ''/srv/empty''])
             = Inr ''/srv/empty''"
    by code_simp
  have other: "getcwd www_env \<noteq> Inr ''/srv/empty''"
    by code_simp
  have dir: "isdir www_env ''/srv/empty''"
    by code_simp
  have ls: "listdir www_env ''/srv/empty'' = Inr []"
    by code_simp
  have m: "filter (\<lambda>f. isfile www_env (path_join ''/srv/empty'' f)
                            \<and> suffix ''.html'' (lower f)) [] = []"
    by simp
  have ok: "ascii_stdout msg_banner = None \<and> ascii_stdout (msg_searching ''/srv/empty'') = None
              \<and> ascii_stdout msg_none = None"
    by code_simp
  from no_files_message_is_fixed [OF d dir ls m, of ascii_stdout] ok other dir ls show ?thesis
    by simp
qed




end
